theory Spec2Isabelle
  imports Main "HOL-Library.Word"
begin

section \<open>The timestamp oracle of server/tso/tso.go\<close>

subsection \<open>Instants, durations and 64-bit integers\<close>

text \<open>
  A \<open>time.Time\<close> is kept as the instant it denotes, in nanoseconds relative to the Unix
  epoch, and a \<open>time.Duration\<close> as a number of nanoseconds. Both are mathematical
  integers; the conversions that the source applies to them (\<open>UnixNano\<close>, \<open>uint64\<close>,
  \<open>int64\<close>, \<open>atomic.AddInt64\<close>) wrap to 64 bits and are written out below.
\<close>

type_synonym Time = int
type_synonym Duration = int

definition Millisecond :: Duration where
  "Millisecond = 1000000"

definition UpdateTimestampStep :: Duration where
  "UpdateTimestampStep = 50 * Millisecond"

definition updateTimestampGuard :: Duration where
  "updateTimestampGuard = Millisecond"

definition maxLogical :: int where
  "maxLogical = 2 ^ 18"

definition maxRetryCount :: nat where
  "maxRetryCount = 10"

text \<open>Conversion to \<open>int64\<close> (two's complement) and to \<open>uint64\<close>.\<close>

definition int64 :: "int \<Rightarrow> int" where
  "int64 x = (x + 2 ^ 63) mod 2 ^ 64 - 2 ^ 63"

definition uint64 :: "int \<Rightarrow> int" where
  "uint64 x = x mod 2 ^ 64"

definition in_int64 :: "int \<Rightarrow> bool" where
  "in_int64 x \<longleftrightarrow> - (2 ^ 63) \<le> x \<and> x < 2 ^ 63"

text \<open>Go's integer division truncates towards zero.\<close>

definition go_div :: "int \<Rightarrow> int \<Rightarrow> int" where
  "go_div a b = sgn a * sgn b * (\<bar>a\<bar> div \<bar>b\<bar>)"

definition UnixNano :: "Time \<Rightarrow> int" where
  "UnixNano t = int64 t"

text \<open>
  Modelled from the spec: \<open>typeutil.ZeroTime\<close>, declared outside this file, is the
  ``zero'' instant that stands for an absent save point and for the sentinel snapshot.
  It is Go's zero \<open>time.Time\<close>, midnight of January 1 of year 1 UTC, which lies
  62135596800 seconds before the Unix epoch.
\<close>

definition ZeroTime :: Time where
  "ZeroTime = - 62135596800000000000"

text \<open>
  Modelled from the spec: \<open>typeutil.SubTimeByWallClock\<close>, declared outside this file,
  is the difference \<open>after - before\<close> of the two instants (``\<open>next - last\<close>'').
\<close>

definition SubTimeByWallClock :: "Time \<Rightarrow> Time \<Rightarrow> Duration" where
  "SubTimeByWallClock after before = after - before"

text \<open>
  Modelled from the spec: \<open>typeutil.ParseTimestamp\<close>, declared outside this file, reads
  the durable key, an unsigned 64-bit count of nanoseconds since the Unix epoch, back as
  the instant \<open>time.Unix(0, int64(nano))\<close>.
\<close>

definition ParseTimestamp :: "int \<Rightarrow> Time" where
  "ParseTimestamp nano = int64 nano"

text \<open>
  Modelled from the spec: \<open>tsoutil.ParseTS\<close>, declared outside this file, unpacks the wire
  format \<open>T = (physical_ms << 18) | logical\<close> into the instant of \<open>physical_ms\<close> and the
  logical part.
\<close>

definition ParseTS :: "64 word \<Rightarrow> Time \<times> int" where
  "ParseTS tso = ((uint tso div 2 ^ 18) * Millisecond, uint tso mod 2 ^ 18)"

subsection \<open>Data\<close>

text \<open>
  An \<open>election.Leadership\<close> handle is reduced to what this file asks of it: whether its
  lease is still valid. A nil handle is \<open>None\<close>.
\<close>

datatype Leadership = Leadership (lease_valid: bool)

text \<open>
  Modelled from the spec: \<open>Leadership.Check\<close>, declared outside this file, is the local
  predicate ``still leader''; on a cleared handle callers observe ``not leader''.
\<close>

fun Check :: "Leadership option \<Rightarrow> bool" where
  "Check None = False"
| "Check (Some l) = lease_valid l"

record atomicObject =
  physical :: Time
  logical :: int

text \<open>
  The oracle. \<open>ts\<close> is the \<open>unsafe.Pointer\<close> to the published snapshot: an address into
  \<open>heap\<close>, the \<open>atomicObject\<close>s allocated so far (\<open>next_addr\<close> is the next free address), or
  \<open>None\<close> for nil. \<open>lastSavedTime\<close> is \<open>None\<close> until the first \<open>Store\<close>. \<open>etcd_timestamp\<close> is
  the value under the durable key \<open><rootPath>/timestamp\<close> that \<open>client\<close> reaches, \<open>None\<close> when
  the key is absent. \<open>maxResetTSGap\<close> is the value the configured function returns.
\<close>

record TimestampOracle =
  leadership :: "Leadership option"
  ts :: "nat option"
  lastSavedTime :: "Time option"
  saveInterval :: Duration
  maxResetTSGap :: Duration
  heap :: "nat \<Rightarrow> atomicObject"
  next_addr :: nat
  etcd_timestamp :: "int option"

record Timestamp =
  Physical :: int
  Logical :: int

datatype panic = NilSnapshot | NilLeadership | BadTypeAssertion

datatype error =
    ErrLoad                \<comment> \<open>the error of \<open>etcdutil.GetValue\<close>\<close>
  | ErrStore               \<comment> \<open>\<open>errors.WithStack(err)\<close> of the transaction\<close>
  | ErrSaveFailed          \<comment> \<open>save timestamp failed, maybe we lost leader\<close>
  | ErrLeaseReset          \<comment> \<open>Setup timestamp failed, lease expired\<close>
  | ErrTooSmall            \<comment> \<open>the specified ts too small than now\<close>
  | ErrTooLarge            \<comment> \<open>the specified ts too large than now\<close>
  | ErrCount               \<comment> \<open>tso count should be positive\<close>
  | ErrNotLeader           \<comment> \<open>can not get timestamp, may be not leader\<close>
  | ErrLeaseAlloc          \<comment> \<open>alloc timestamp failed, lease expired\<close>
  | ErrCannotGet           \<comment> \<open>can not get timestamp\<close>

datatype 'a result = Return 'a | Error error | Panic panic

text \<open>The outcome of the leader-conditional transaction, decided by the store.\<close>

datatype txn_result = TxnError | TxnNotSucceeded | TxnSucceeded

definition NewTimestampOracle :: "Duration \<Rightarrow> Duration \<Rightarrow> TimestampOracle" where
  "NewTimestampOracle interval gap =
     \<lparr>leadership = None, ts = None, lastSavedTime = None, saveInterval = interval,
      maxResetTSGap = gap, heap = (\<lambda>_. \<lparr>physical = 0, logical = 0\<rparr>), next_addr = 0,
      etcd_timestamp = None\<rparr>"

definition getLeadership :: "TimestampOracle \<Rightarrow> Leadership option" where
  "getLeadership t = leadership t"

definition setLeadership :: "Leadership option \<Rightarrow> TimestampOracle \<Rightarrow> TimestampOracle" where
  "setLeadership l t = t\<lparr>leadership := l\<rparr>"

text \<open>\<open>&atomicObject{...}\<close>: a fresh object at a fresh address.\<close>

definition new_atomicObject :: "atomicObject \<Rightarrow> TimestampOracle \<Rightarrow> nat \<times> TimestampOracle" where
  "new_atomicObject obj t =
     (next_addr t, t\<lparr>heap := (heap t)(next_addr t := obj), next_addr := Suc (next_addr t)\<rparr>)"

definition StorePointer :: "nat \<Rightarrow> TimestampOracle \<Rightarrow> TimestampOracle" where
  "StorePointer a t = t\<lparr>ts := Some a\<rparr>"

definition CompareAndSwapPointer ::
  "nat option \<Rightarrow> nat \<Rightarrow> TimestampOracle \<Rightarrow> bool \<times> TimestampOracle" where
  "CompareAndSwapPointer old new t =
     (if ts t = old then (True, t\<lparr>ts := Some new\<rparr>) else (False, t))"

text \<open>The published snapshot, if there is one.\<close>

definition snapshot :: "TimestampOracle \<Rightarrow> atomicObject option" where
  "snapshot t = map_option (heap t) (ts t)"

subsection \<open>Loading and saving the save point\<close>

text \<open>
  \<open>loadTimestamp\<close>: \<open>get_ok\<close> tells whether \<open>etcdutil.GetValue\<close> answered; an absent key
  reads as \<open>ZeroTime\<close>.
\<close>

definition loadTimestamp :: "bool \<Rightarrow> TimestampOracle \<Rightarrow> Time result" where
  "loadTimestamp get_ok t =
     (if \<not> get_ok then Error ErrLoad
      else case etcd_timestamp t of
             None \<Rightarrow> Return ZeroTime
           | Some data \<Rightarrow> Return (ParseTimestamp data))"

text \<open>
  \<open>saveTimestamp\<close>: the transaction is built from the leadership handle, so a nil handle
  is a nil dereference; the store then decides the transaction (\<open>txn\<close>). Only a
  transaction that succeeded writes the key and the in-memory mirror.
\<close>

definition saveTimestamp ::
  "txn_result \<Rightarrow> Time \<Rightarrow> TimestampOracle \<Rightarrow> unit result \<times> TimestampOracle" where
  "saveTimestamp txn tm t =
     (case getLeadership t of
        None \<Rightarrow> (Panic NilLeadership, t)
      | Some l \<Rightarrow>
          (case txn of
             TxnError \<Rightarrow> (Error ErrStore, t)
           | TxnNotSucceeded \<Rightarrow> (Error ErrSaveFailed, t)
           | TxnSucceeded \<Rightarrow>
               (Return (), t\<lparr>etcd_timestamp := Some (uint64 (UnixNano tm)),
                               lastSavedTime := Some tm\<rparr>)))"

subsection \<open>SyncTimestamp\<close>

definition SyncTimestamp ::
  "Leadership option \<Rightarrow> bool \<Rightarrow> Time \<Rightarrow> txn_result \<Rightarrow> TimestampOracle
     \<Rightarrow> unit result \<times> TimestampOracle" where
  "SyncTimestamp l get_ok now txn t0 =
     (let t = setLeadership l t0 in
      case loadTimestamp get_ok t of
        Error e \<Rightarrow> (Error e, t)
      | Panic p \<Rightarrow> (Panic p, t)
      | Return last_saved \<Rightarrow>
          (let next = (if SubTimeByWallClock now last_saved < updateTimestampGuard
                       then last_saved + updateTimestampGuard else now);
               save = next + saveInterval t
           in case saveTimestamp txn save t of
                (Return u, t1) \<Rightarrow>
                  (let (a, t2) = new_atomicObject \<lparr>physical = next, logical = 0\<rparr> t1
                   in (Return (), StorePointer a t2))
              | (Error e, t1) \<Rightarrow> (Error e, t1)
              | (Panic p, t1) \<Rightarrow> (Panic p, t1)))"

subsection \<open>ResetUserTimestamp\<close>

text \<open>
  \<open>env\<close> is what other goroutines do to the oracle between the load of \<open>prev\<close> and the
  compare-and-swap (while the save is under way); \<open>(\<lambda>t. t)\<close> is an undisturbed call.
\<close>

definition ResetUserTimestamp ::
  "(TimestampOracle \<Rightarrow> TimestampOracle) \<Rightarrow> 64 word \<Rightarrow> txn_result \<Rightarrow> TimestampOracle
     \<Rightarrow> unit result \<times> TimestampOracle" where
  "ResetUserTimestamp env tso txn t =
     (if \<not> Check (getLeadership t) then (Error ErrLeaseReset, t)
      else
        let next = fst (ParseTS tso) + Millisecond in
        case ts t of
          None \<Rightarrow> (Panic NilSnapshot, t)
        | Some prev \<Rightarrow>
            if SubTimeByWallClock next (physical (heap t prev)) \<le> 3 * updateTimestampGuard
            then (Error ErrTooSmall, t)
            else if SubTimeByWallClock next (physical (heap t prev)) \<ge> maxResetTSGap t
            then (Error ErrTooLarge, t)
            else
              (case saveTimestamp txn (next + saveInterval t) t of
                 (Return u, t1) \<Rightarrow>
                   (let (a, t2) = new_atomicObject \<lparr>physical = next, logical = 0\<rparr> (env t1)
                    in (Return (), snd (CompareAndSwapPointer (Some prev) a t2)))
               | (Error e, t1) \<Rightarrow> (Error e, t1)
               | (Panic p, t1) \<Rightarrow> (Panic p, t1)))"

subsection \<open>UpdateTimestamp\<close>

text \<open>The choice of \<open>next\<close>; \<open>None\<close> is the branch that returns without an update.\<close>

definition UpdateTimestamp_next :: "Time \<Rightarrow> atomicObject \<Rightarrow> Time option" where
  "UpdateTimestamp_next now prev =
     (let jetLag = SubTimeByWallClock now (physical prev);
          prevLogical = logical prev
      in if jetLag > updateTimestampGuard then Some now
         else if prevLogical > go_div maxLogical 2 then Some (physical prev + Millisecond)
         else None)"

definition UpdateTimestamp ::
  "Time \<Rightarrow> txn_result \<Rightarrow> TimestampOracle \<Rightarrow> unit result \<times> TimestampOracle" where
  "UpdateTimestamp now txn t =
     (case ts t of
        None \<Rightarrow> (Panic NilSnapshot, t)
      | Some prev \<Rightarrow>
          (case UpdateTimestamp_next now (heap t prev) of
             None \<Rightarrow> (Return (), t)
           | Some next \<Rightarrow>
               (case lastSavedTime t of
                  None \<Rightarrow> (Panic BadTypeAssertion, t)
                | Some saved \<Rightarrow>
                    (let publish = (\<lambda>t1. let (a, t2) = new_atomicObject
                                                  \<lparr>physical = next, logical = 0\<rparr> t1
                                          in (Return (), StorePointer a t2))
                     in if SubTimeByWallClock saved next \<le> updateTimestampGuard
                        then (case saveTimestamp txn (next + saveInterval t) t of
                                (Return u, t1) \<Rightarrow> publish t1
                              | (Error e, t1) \<Rightarrow> (Error e, t1)
                              | (Panic p, t1) \<Rightarrow> (Panic p, t1))
                        else publish t))))"

text \<open>
  \<open>UpdateTimestamp\<close> holds no lock: other goroutines run between its load of \<open>prev\<close>
  and the reads and the store that follow. \<open>env\<close> is what they do to the oracle in that
  window; the call goes on with the \<open>prev\<close> it loaded before.
\<close>

definition UpdateTimestamp_interleaved ::
  "(TimestampOracle \<Rightarrow> TimestampOracle) \<Rightarrow> Time \<Rightarrow> txn_result \<Rightarrow> TimestampOracle
     \<Rightarrow> unit result \<times> TimestampOracle" where
  "UpdateTimestamp_interleaved env now txn t =
     (case ts t of
        None \<Rightarrow> (Panic NilSnapshot, t)
      | Some prev \<Rightarrow>
          (let t0 = env t in
           case UpdateTimestamp_next now (heap t0 prev) of
             None \<Rightarrow> (Return (), t0)
           | Some next \<Rightarrow>
               (case lastSavedTime t0 of
                  None \<Rightarrow> (Panic BadTypeAssertion, t0)
                | Some saved \<Rightarrow>
                    (let publish = (\<lambda>t1. let (a, t2) = new_atomicObject
                                                  \<lparr>physical = next, logical = 0\<rparr> t1
                                          in (Return (), StorePointer a t2))
                     in if SubTimeByWallClock saved next \<le> updateTimestampGuard
                        then (case saveTimestamp txn (next + saveInterval t0) t0 of
                                (Return u, t1) \<Rightarrow> publish t1
                              | (Error e, t1) \<Rightarrow> (Error e, t1)
                              | (Panic p, t1) \<Rightarrow> (Panic p, t1))
                        else publish t0))))"

subsection \<open>ResetTimestamp\<close>

definition ResetTimestamp :: "TimestampOracle \<Rightarrow> TimestampOracle" where
  "ResetTimestamp t =
     (let (a, t1) = new_atomicObject \<lparr>physical = ZeroTime, logical = 0\<rparr> t
      in setLeadership None (StorePointer a t1))"

subsection \<open>GetRespTS\<close>

text \<open>\<open>atomic.AddInt64\<close> on the counter of the object at an address: the new value and the oracle.\<close>

definition AddInt64 :: "nat \<Rightarrow> int \<Rightarrow> TimestampOracle \<Rightarrow> int \<times> TimestampOracle" where
  "AddInt64 a n t =
     (let v = int64 (logical (heap t a) + n)
      in (v, t\<lparr>heap := (heap t)(a := (heap t a)\<lparr>logical := v\<rparr>)\<rparr>))"

text \<open>
  One iteration of the retry loop: it ends the call with a result, or goes on to the next
  iteration (\<open>continue\<close>, after a sleep).
\<close>

datatype iteration = Continue | Done "Timestamp result"

definition GetRespTS_iter :: "32 word \<Rightarrow> TimestampOracle \<Rightarrow> iteration \<times> TimestampOracle" where
  "GetRespTS_iter count t =
     (let not_synced = (if Check (getLeadership t) then (Continue, t)
                        else (Done (Error ErrNotLeader), t))
      in case ts t of
           None \<Rightarrow> not_synced
         | Some current \<Rightarrow>
             if physical (heap t current) = ZeroTime then not_synced
             else
               (let resp_Physical = go_div (UnixNano (physical (heap t current))) Millisecond;
                    (resp_Logical, t1) = AddInt64 current (uint count) t
                in if resp_Logical \<ge> maxLogical then (Continue, t1)
                   else if \<not> Check (getLeadership t1) then (Done (Error ErrLeaseAlloc), t1)
                   else (Done (Return \<lparr>Physical = resp_Physical, Logical = resp_Logical\<rparr>),
                         t1)))"

text \<open>
  The retry loop, \<open>k\<close> iterations left, \<open>i\<close> the loop variable. \<open>env i\<close> is what other
  goroutines do to the oracle while iteration \<open>i\<close> sleeps before the next one;
  \<open>(\<lambda>i t. t)\<close> is a call that nobody disturbs.
\<close>

fun GetRespTS_loop ::
  "nat \<Rightarrow> nat \<Rightarrow> (nat \<Rightarrow> TimestampOracle \<Rightarrow> TimestampOracle) \<Rightarrow> 32 word \<Rightarrow> TimestampOracle
     \<Rightarrow> Timestamp result \<times> TimestampOracle" where
  "GetRespTS_loop 0 i env count t = (Error ErrCannotGet, t)"
| "GetRespTS_loop (Suc k) i env count t =
     (case GetRespTS_iter count t of
        (Continue, t1) \<Rightarrow> GetRespTS_loop k (Suc i) env count (env i t1)
      | (Done r, t1) \<Rightarrow> (r, t1))"

definition GetRespTS ::
  "(nat \<Rightarrow> TimestampOracle \<Rightarrow> TimestampOracle) \<Rightarrow> 32 word \<Rightarrow> TimestampOracle
     \<Rightarrow> Timestamp result \<times> TimestampOracle" where
  "GetRespTS env count t =
     (if count = 0 then (Error ErrCount, t)
      else GetRespTS_loop maxRetryCount 0 env count t)"

subsection \<open>Runs of the oracle\<close>





subsection \<open>Two concrete oracles\<close>

text \<open>
  A new oracle with \<open>saveInterval\<close> = 3 s and a reset gap of one day; the same oracle in
  front of a store whose key holds 2000000 ms; and the oracle after a first
  \<open>SyncTimestamp\<close> at wall clock 1000000 ms on an empty store.
\<close>

definition fresh_oracle :: TimestampOracle where
  "fresh_oracle = NewTimestampOracle (3000 * Millisecond) (86400000 * Millisecond)"

definition S2_oracle :: TimestampOracle where
  "S2_oracle = fresh_oracle\<lparr>etcd_timestamp := Some (2000000 * Millisecond)\<rparr>"

definition S1_oracle :: TimestampOracle where
  "S1_oracle =
     snd (SyncTimestamp (Some (Leadership True)) True (1000000 * Millisecond) TxnSucceeded
            fresh_oracle)"

subsection \<open>Predicates and scenarios of the properties\<close>

text \<open>
  The state of an armed oracle: \<open>saveInterval\<close> is at least the guard; there is a snapshot
  and a last-saved mirror \<open>m\<close>; the mirror is ahead of the snapshot's physical by at least the
  guard (I4) and by at most \<open>saveInterval\<close>; the key holds the encoding of \<open>m\<close>, and \<open>m\<close> is an
  instant that \<open>UnixNano\<close> represents.
\<close>

definition save_ahead :: "TimestampOracle \<Rightarrow> bool" where
  "save_ahead t \<longleftrightarrow>
     updateTimestampGuard \<le> saveInterval t \<and>
     (case (ts t, lastSavedTime t) of
        (Some a, Some m) \<Rightarrow>
          physical (heap t a) + updateTimestampGuard \<le> m \<and>
          m \<le> physical (heap t a) + saveInterval t \<and>
          etcd_timestamp t = Some (uint64 (UnixNano m)) \<and> in_int64 m
      | _ \<Rightarrow> False)"

text \<open>The instant last saved, if any, is one that \<open>UnixNano\<close> represents without wrapping.\<close>

definition representable :: "TimestampOracle \<Rightarrow> bool" where
  "representable t \<longleftrightarrow> (case lastSavedTime t of None \<Rightarrow> True | Some m \<Rightarrow> in_int64 m)"

text \<open>I1 and I2 between the oracle before and after an operation.\<close>

definition physical_not_decreased :: "TimestampOracle \<Rightarrow> TimestampOracle \<Rightarrow> bool" where
  "physical_not_decreased t t' \<longleftrightarrow>
     (case (snapshot t, snapshot t') of
        (Some p, Some p') \<Rightarrow> physical p \<le> physical p'
      | (Some p, None) \<Rightarrow> False
      | (None, _) \<Rightarrow> True)"

definition saved_not_decreased :: "TimestampOracle \<Rightarrow> TimestampOracle \<Rightarrow> bool" where
  "saved_not_decreased t t' \<longleftrightarrow>
     (case (lastSavedTime t, lastSavedTime t') of
        (Some m, Some m') \<Rightarrow> m \<le> m'
      | (Some m, None) \<Rightarrow> False
      | (None, _) \<Rightarrow> True)"

text \<open>
  What an operation does to the objects: nothing, or it allocates one object with logical 0
  at the next free address, and may publish it.
\<close>

definition alloc_step :: "TimestampOracle \<Rightarrow> TimestampOracle \<Rightarrow> bool" where
  "alloc_step t t1 \<longleftrightarrow>
     (heap t1 = heap t \<and> next_addr t1 = next_addr t \<and> ts t1 = ts t) \<or>
     (\<exists>p. heap t1 = (heap t)(next_addr t := \<lparr>physical = p, logical = 0\<rparr>) \<and>
          next_addr t1 = Suc (next_addr t) \<and> (ts t1 = Some (next_addr t) \<or> ts t1 = ts t))"




text \<open>No goroutine touches the oracle while a \<open>GetRespTS\<close> call sleeps.\<close>

definition undisturbed :: "nat \<Rightarrow> TimestampOracle \<Rightarrow> TimestampOracle" where
  "undisturbed i t = t"

text \<open>The oracle after \<open>GetRespTS(262140)\<close> on the snapshot \<open>(1000000 ms, 0)\<close>.\<close>

definition S3_oracle :: TimestampOracle where
  "S3_oracle = snd (GetRespTS undisturbed 262140 S1_oracle)"

text \<open>
  A background tick at 1000050 ms that runs while \<open>ResetUserTimestamp\<close> is saving.
\<close>

definition concurrent_tick :: "TimestampOracle \<Rightarrow> TimestampOracle" where
  "concurrent_tick t = snd (UpdateTimestamp (1000050 * Millisecond) TxnSucceeded t)"

text \<open>
  The oracle after a reset to the timestamp \<open>(2000000, 0)\<close> whose compare-and-swap lost to
  that tick, and an operator reset to \<open>(2000000, 0)\<close> that runs to its end on its own.
\<close>

definition lost_cas_oracle :: TimestampOracle where
  "lost_cas_oracle =
     snd (ResetUserTimestamp concurrent_tick (push_bit 18 2000000) TxnSucceeded S1_oracle)"

definition concurrent_reset :: "TimestampOracle \<Rightarrow> TimestampOracle" where
  "concurrent_reset t = snd (ResetUserTimestamp id (push_bit 18 2000000) TxnSucceeded t)"

text \<open>No snapshot to serve from: the pointer is nil or points to the zero-physical sentinel.\<close>

definition not_synced :: "TimestampOracle \<Rightarrow> bool" where
  "not_synced t \<longleftrightarrow>
     (case ts t of None \<Rightarrow> True | Some a \<Rightarrow> physical (heap t a) = ZeroTime)"

text \<open>
  A \<open>SyncTimestamp\<close> has succeeded earlier: there is a snapshot pointer, and the last-saved
  mirror has been stored.
\<close>

definition synced_once :: "TimestampOracle \<Rightarrow> bool" where
  "synced_once t \<longleftrightarrow> ts t \<noteq> None \<and> lastSavedTime t \<noteq> None"

section \<open>Properties\<close>

lemmas oracle_defs =
  getLeadership_def setLeadership_def new_atomicObject_def StorePointer_def
  CompareAndSwapPointer_def snapshot_def loadTimestamp_def saveTimestamp_def
  SubTimeByWallClock_def

lemmas const_defs =
  Millisecond_def updateTimestampGuard_def maxLogical_def maxRetryCount_def ZeroTime_def
  UnixNano_def ParseTimestamp_def int64_def uint64_def go_div_def

lemma int64_id: "in_int64 x \<Longrightarrow> int64 x = x"
  by (simp add: int64_def in_int64_def)

lemma fresh_oracle_eq:
  "fresh_oracle =
     \<lparr>leadership = None, ts = None, lastSavedTime = None, saveInterval = 3000000000,
      maxResetTSGap = 86400000000000, heap = (\<lambda>_. \<lparr>physical = 0, logical = 0\<rparr>),
      next_addr = 0, etcd_timestamp = None\<rparr>"
  by (simp add: fresh_oracle_def NewTimestampOracle_def Millisecond_def)

lemma S1_oracle_eq:
  "S1_oracle =
     \<lparr>leadership = Some (Leadership True), ts = Some 0,
      lastSavedTime = Some 1003000000000, saveInterval = 3000000000,
      maxResetTSGap = 86400000000000,
      heap = (\<lambda>_. \<lparr>physical = 0, logical = 0\<rparr>)
               (0 := \<lparr>physical = 1000000000000, logical = 0\<rparr>),
      next_addr = Suc 0, etcd_timestamp = Some 1003000000000\<rparr>"
  by (simp add: S1_oracle_def fresh_oracle_eq SyncTimestamp_def oracle_defs const_defs Let_def)

subsection \<open>SyncTimestamp\<close>

text \<open>
  C3. \<open>SyncTimestamp\<close>, when the load succeeds, takes \<open>next = now\<close>; if
  \<open>next - last < updateTimestampGuard\<close>, where \<open>last\<close> is the save point read from the store
  (\<open>ZeroTime\<close> when the key is absent), it takes \<open>next = last + updateTimestampGuard\<close>. It
  saves \<open>next + saveInterval\<close>, and publishes the snapshot \<open>(next, 0)\<close> only when the save
  succeeded; otherwise it returns the error and neither the snapshot, the mirror nor the
  key changes. In particular, with the key at 2000000 ms, the wall clock at 1999999.5 ms
  and \<open>saveInterval\<close> = 3 s it publishes physical 2000001 ms and saves 2003001 ms.
\<close>

theorem SyncTimestamp_next_save_publish:
  assumes "lst = (case etcd_timestamp t of None \<Rightarrow> ZeroTime | Some d \<Rightarrow> ParseTimestamp d)"
    and "next = (if now - lst < updateTimestampGuard then lst + updateTimestampGuard else now)"
    and "SyncTimestamp (Some l) True now txn t = (r, t')"
  shows "(txn = TxnSucceeded \<longrightarrow>
            r = Return () \<and> snapshot t' = Some \<lparr>physical = next, logical = 0\<rparr> \<and>
            lastSavedTime t' = Some (next + saveInterval t) \<and>
            etcd_timestamp t' = Some (uint64 (UnixNano (next + saveInterval t)))) \<and>
         (txn \<noteq> TxnSucceeded \<longrightarrow>
            r = Error (if txn = TxnError then ErrStore else ErrSaveFailed) \<and>
            ts t' = ts t \<and> heap t' = heap t \<and>
            lastSavedTime t' = lastSavedTime t \<and> etcd_timestamp t' = etcd_timestamp t) \<and>
         (case SyncTimestamp (Some (Leadership True)) True (1999999500 * 1000) TxnSucceeded
                 S2_oracle of
            (r2, t2) \<Rightarrow>
              r2 = Return () \<and>
              snapshot t2 = Some \<lparr>physical = 2000001 * Millisecond, logical = 0\<rparr> \<and>
              lastSavedTime t2 = Some (2003001 * Millisecond) \<and>
              etcd_timestamp t2 = Some (2003001 * Millisecond))"
proof -
  have general: "(txn = TxnSucceeded \<longrightarrow>
            r = Return () \<and> snapshot t' = Some \<lparr>physical = next, logical = 0\<rparr> \<and>
            lastSavedTime t' = Some (next + saveInterval t) \<and>
            etcd_timestamp t' = Some (uint64 (UnixNano (next + saveInterval t)))) \<and>
         (txn \<noteq> TxnSucceeded \<longrightarrow>
            r = Error (if txn = TxnError then ErrStore else ErrSaveFailed) \<and>
            ts t' = ts t \<and> heap t' = heap t \<and>
            lastSavedTime t' = lastSavedTime t \<and> etcd_timestamp t' = etcd_timestamp t)"
    using assms
    by (cases txn; cases "etcd_timestamp t") (auto simp: SyncTimestamp_def oracle_defs Let_def)
  have s2: "SyncTimestamp (Some (Leadership True)) True (1999999500 * 1000) TxnSucceeded S2_oracle =
      (Return (),
       \<lparr>leadership = Some (Leadership True), ts = Some 0,
        lastSavedTime = Some 2003001000000, saveInterval = 3000000000,
        maxResetTSGap = 86400000000000,
        heap = (\<lambda>_. \<lparr>physical = 0, logical = 0\<rparr>)
                 (0 := \<lparr>physical = 2000001000000, logical = 0\<rparr>),
        next_addr = Suc 0, etcd_timestamp = Some 2003001000000\<rparr>)"
    by (simp add: S2_oracle_def fresh_oracle_eq SyncTimestamp_def oracle_defs const_defs Let_def)
  have scenario: "case SyncTimestamp (Some (Leadership True)) True (1999999500 * 1000) TxnSucceeded
                 S2_oracle of
            (r2, t2) \<Rightarrow>
              r2 = Return () \<and>
              snapshot t2 = Some \<lparr>physical = 2000001 * Millisecond, logical = 0\<rparr> \<and>
              lastSavedTime t2 = Some (2003001 * Millisecond) \<and>
              etcd_timestamp t2 = Some (2003001 * Millisecond)"
    unfolding s2 by (simp add: snapshot_def Millisecond_def)
  from general scenario show ?thesis by blast
qed

text \<open>
  The cold start: the key is absent, the wall clock is at 1000000 ms. The snapshot is
  \<open>(1000000 ms, 0)\<close> and the key becomes 1003000 ms.
\<close>

theorem SyncTimestamp_next_save_publish_witness:
  "snapshot S1_oracle = Some \<lparr>physical = 1000000 * Millisecond, logical = 0\<rparr> \<and>
   lastSavedTime S1_oracle = Some (1003000 * Millisecond) \<and>
   etcd_timestamp S1_oracle = Some (uint64 (UnixNano (1003000 * Millisecond)))"
proof -
  have a: "ZeroTime = (case etcd_timestamp fresh_oracle of None \<Rightarrow> ZeroTime
                        | Some d \<Rightarrow> ParseTimestamp d)"
    by (simp add: fresh_oracle_eq)
  have b: "1000000 * Millisecond =
      (if 1000000 * Millisecond - ZeroTime < updateTimestampGuard
       then ZeroTime + updateTimestampGuard else 1000000 * Millisecond)"
    by (simp add: const_defs)
  have c: "SyncTimestamp (Some (Leadership True)) True (1000000 * Millisecond) TxnSucceeded
             fresh_oracle =
           (Return (), S1_oracle)"
    by (simp add: S1_oracle_def fresh_oracle_eq SyncTimestamp_def oracle_defs const_defs Let_def)
  have d: "saveInterval fresh_oracle = 3000 * Millisecond"
    by (simp add: fresh_oracle_eq Millisecond_def)
  show ?thesis
    using SyncTimestamp_next_save_publish [OF a b c] d by (simp add: Millisecond_def)
qed

subsection \<open>UpdateTimestamp\<close>

text \<open>
  C4. With \<open>lag = now - prev.physical\<close>, \<open>UpdateTimestamp\<close> follows an ordered policy: if
  \<open>lag > updateTimestampGuard\<close> the snapshot it publishes has physical \<open>now\<close>; else if
  \<open>prev.logical > maxLogical / 2\<close> it has physical \<open>prev.physical + 1 ms\<close>; else the call
  returns at once and the oracle is unchanged. A published snapshot has logical 0, and a
  call that does not return normally leaves the snapshot as it was.
\<close>

theorem UpdateTimestamp_policy:
  assumes "ts t = Some a" and "prev = heap t a" and "lag = now - physical prev"
    and "UpdateTimestamp now txn t = (r, t')"
  shows "(lag > updateTimestampGuard \<and> r = Return () \<longrightarrow>
            snapshot t' = Some \<lparr>physical = now, logical = 0\<rparr>) \<and>
         (\<not> lag > updateTimestampGuard \<and> logical prev > maxLogical div 2 \<and> r = Return () \<longrightarrow>
            snapshot t' = Some \<lparr>physical = physical prev + Millisecond, logical = 0\<rparr>) \<and>
         (\<not> lag > updateTimestampGuard \<and> \<not> logical prev > maxLogical div 2 \<longrightarrow>
            r = Return () \<and> t' = t) \<and>
         (r \<noteq> Return () \<longrightarrow> ts t' = ts t \<and> heap t' = heap t)"
  using assms
  by (cases txn; cases "lastSavedTime t"; cases "leadership t")
     (auto simp: UpdateTimestamp_def UpdateTimestamp_next_def oracle_defs Let_def go_div_def
        maxLogical_def split: if_splits)

text \<open>
  From the snapshot \<open>(1000000 ms, 0)\<close>: a tick at 1000050 ms publishes \<open>(1000050 ms, 0)\<close>; a
  tick at 1000000.5 ms with the counter at 200000 publishes \<open>(1000001 ms, 0)\<close>; the same
  tick with the counter at 0 changes nothing.
\<close>

theorem UpdateTimestamp_policy_witness:
  "snapshot (snd (UpdateTimestamp (1000050 * Millisecond) TxnSucceeded S1_oracle)) =
     Some \<lparr>physical = 1000050 * Millisecond, logical = 0\<rparr> \<and>
   snapshot (snd (UpdateTimestamp (1000000500 * 1000) TxnSucceeded
                    (snd (AddInt64 0 200000 S1_oracle)))) =
     Some \<lparr>physical = 1000001 * Millisecond, logical = 0\<rparr> \<and>
   UpdateTimestamp (1000000500 * 1000) TxnSucceeded S1_oracle = (Return (), S1_oracle)"
proof -
  let ?u1 = "UpdateTimestamp (1000050 * Millisecond) TxnSucceeded S1_oracle"
  let ?s2 = "snd (AddInt64 0 200000 S1_oracle)"
  let ?u2 = "UpdateTimestamp (1000000500 * 1000) TxnSucceeded ?s2"
  let ?u3 = "UpdateTimestamp (1000000500 * 1000) TxnSucceeded S1_oracle"
  have ts1: "ts S1_oracle = Some 0" and ts2: "ts ?s2 = Some 0"
    by (simp_all add: S1_oracle_eq AddInt64_def Let_def)
  have p1: "physical (heap S1_oracle 0) = 1000000000000" "logical (heap S1_oracle 0) = 0"
    and p2: "physical (heap ?s2 0) = 1000000000000" "logical (heap ?s2 0) = 200000"
    by (simp_all add: S1_oracle_eq AddInt64_def Let_def int64_def)
  have r1: "fst ?u1 = Return ()"
    by (simp add: S1_oracle_eq UpdateTimestamp_def UpdateTimestamp_next_def oracle_defs
          const_defs Let_def)
  have r2: "fst ?u2 = Return ()"
    by (simp add: S1_oracle_eq AddInt64_def UpdateTimestamp_def UpdateTimestamp_next_def
          oracle_defs const_defs Let_def)
  have c1: "snapshot (snd ?u1) = Some \<lparr>physical = 1000050 * Millisecond, logical = 0\<rparr>"
    using UpdateTimestamp_policy [OF ts1 refl refl, of "1000050 * Millisecond" TxnSucceeded
        "fst ?u1" "snd ?u1"] r1 p1
    by (simp add: const_defs)
  have c2: "snapshot (snd ?u2) = Some \<lparr>physical = 1000001 * Millisecond, logical = 0\<rparr>"
    using UpdateTimestamp_policy [OF ts2 refl refl, of "1000000500 * 1000" TxnSucceeded
        "fst ?u2" "snd ?u2"] r2 p2
    by (simp add: const_defs)
  have c3: "?u3 = (Return (), S1_oracle)"
    using UpdateTimestamp_policy [OF ts1 refl refl, of "1000000500 * 1000" TxnSucceeded
        "fst ?u3" "snd ?u3"] p1
    by (simp add: const_defs prod_eq_iff)
  from c1 c2 c3 show ?thesis by blast
qed

subsection \<open>Failed saves\<close>

text \<open>
  C5. When the durable save fails (the transaction returns an error or does not succeed),
  \<open>SyncTimestamp\<close> and \<open>UpdateTimestamp\<close> return that error and publish nothing: the
  snapshot pointer and the objects are as before, for \<open>SyncTimestamp\<close> also when there was no
  snapshot. The mirror \<open>lastSavedTime\<close> and the key are written by \<open>saveTimestamp\<close> only when
  the transaction succeeded.
\<close>

theorem failed_save_publishes_nothing:
  assumes "txn \<noteq> TxnSucceeded"
    and "e = (if txn = TxnError then ErrStore else ErrSaveFailed)"
  shows "(case SyncTimestamp (Some l) True now txn t of
            (r, t') \<Rightarrow> r = Error e \<and> ts t' = ts t \<and> heap t' = heap t \<and>
                        snapshot t' = snapshot t \<and>
                        lastSavedTime t' = lastSavedTime t \<and>
                        etcd_timestamp t' = etcd_timestamp t) \<and>
         (ts t = Some a \<and> UpdateTimestamp_next now (heap t a) = Some nxt \<and>
          lastSavedTime t = Some saved \<and> saved - nxt \<le> updateTimestampGuard \<and>
          leadership t = Some l \<longrightarrow>
            UpdateTimestamp now txn t = (Error e, t)) \<and>
         (case saveTimestamp txn tm t of
            (r, t') \<Rightarrow> r \<noteq> Return () \<and> t' = t) \<and>
         (case UpdateTimestamp now txn t of
            (r, t') \<Rightarrow> lastSavedTime t' = lastSavedTime t \<and>
                        etcd_timestamp t' = etcd_timestamp t)"
proof -
  have sync: "case SyncTimestamp (Some l) True now txn t of
            (r, t') \<Rightarrow> r = Error e \<and> ts t' = ts t \<and> heap t' = heap t \<and>
                        snapshot t' = snapshot t \<and>
                        lastSavedTime t' = lastSavedTime t \<and>
                        etcd_timestamp t' = etcd_timestamp t"
    using assms
    by (cases txn; cases "etcd_timestamp t") (simp_all add: SyncTimestamp_def oracle_defs Let_def)
  have upd: "ts t = Some a \<and> UpdateTimestamp_next now (heap t a) = Some nxt \<and>
          lastSavedTime t = Some saved \<and> saved - nxt \<le> updateTimestampGuard \<and>
          leadership t = Some l \<longrightarrow>
            UpdateTimestamp now txn t = (Error e, t)"
    using assms by (cases txn) (simp_all add: UpdateTimestamp_def oracle_defs Let_def)
  have save: "case saveTimestamp txn tm t of (r, t') \<Rightarrow> r \<noteq> Return () \<and> t' = t"
    using assms by (cases txn; cases "leadership t") (simp_all add: oracle_defs)
  have mirror: "case UpdateTimestamp now txn t of
            (r, t') \<Rightarrow> lastSavedTime t' = lastSavedTime t \<and>
                        etcd_timestamp t' = etcd_timestamp t"
    using assms
    by (cases txn; cases "leadership t")
       (auto simp: UpdateTimestamp_def oracle_defs Let_def split: option.splits)
  from sync upd save mirror show ?thesis by blast
qed

text \<open>
  A tick at 1004000 ms needs a save (the save point is 1003000 ms); the transaction reports
  that leadership was lost, and the oracle stays as it was.
\<close>

theorem failed_save_publishes_nothing_witness:
  "UpdateTimestamp (1004000 * Millisecond) TxnNotSucceeded S1_oracle =
     (Error ErrSaveFailed, S1_oracle) \<and>
   fst (SyncTimestamp (Some (Leadership True)) True (1004000 * Millisecond) TxnNotSucceeded
          S1_oracle) = Error ErrSaveFailed \<and>
   snapshot (snd (SyncTimestamp (Some (Leadership True)) True (1004000 * Millisecond)
                    TxnNotSucceeded S1_oracle)) = snapshot S1_oracle"
proof -
  have h1: "TxnNotSucceeded \<noteq> TxnSucceeded" by simp
  have h2: "ErrSaveFailed = (if TxnNotSucceeded = TxnError then ErrStore else ErrSaveFailed)"
    by simp
  have pre: "ts S1_oracle = Some 0 \<and>
       UpdateTimestamp_next (1004000 * Millisecond) (heap S1_oracle 0) =
         Some (1004000 * Millisecond) \<and>
       lastSavedTime S1_oracle = Some 1003000000000 \<and>
       1003000000000 - 1004000 * Millisecond \<le> updateTimestampGuard \<and>
       leadership S1_oracle = Some (Leadership True)"
    by (simp add: S1_oracle_eq UpdateTimestamp_next_def oracle_defs const_defs Let_def)
  show ?thesis
    using failed_save_publishes_nothing [OF h1 h2, where l = "Leadership True"
        and now = "1004000 * Millisecond" and t = S1_oracle and a = 0
        and nxt = "1004000 * Millisecond" and saved = 1003000000000] pre
    by (simp add: split_beta)
qed

subsection \<open>ResetUserTimestamp\<close>

text \<open>
  C6. With \<open>next\<close> the unpacked physical plus 1 ms and \<open>prev\<close> the current snapshot,
  \<open>ResetUserTimestamp\<close> returns an error and leaves the oracle untouched (nothing saved,
  nothing published) when the caller is no longer leader, when
  \<open>next - prev.physical \<le> 3 * updateTimestampGuard\<close> (too small), and when
  \<open>next - prev.physical \<ge> maxResetTSGap\<close> (too large).
\<close>

theorem ResetUserTimestamp_rejects:
  assumes "next = fst (ParseTS tso) + Millisecond"
  shows "(\<not> Check (getLeadership t) \<longrightarrow>
            ResetUserTimestamp env tso txn t = (Error ErrLeaseReset, t)) \<and>
         (Check (getLeadership t) \<and> ts t = Some a \<and>
          next - physical (heap t a) \<le> 3 * updateTimestampGuard \<longrightarrow>
            ResetUserTimestamp env tso txn t = (Error ErrTooSmall, t)) \<and>
         (Check (getLeadership t) \<and> ts t = Some a \<and>
          next - physical (heap t a) > 3 * updateTimestampGuard \<and>
          next - physical (heap t a) \<ge> maxResetTSGap t \<longrightarrow>
            ResetUserTimestamp env tso txn t = (Error ErrTooLarge, t))"
  using assms by (auto simp: ResetUserTimestamp_def oracle_defs Let_def)

text \<open>
  The snapshot is \<open>(1000000 ms, 0)\<close>. A reset to the timestamp \<open>(1000000, 0)\<close> is too small;
  a reset to \<open>(1000000 + 86400000, 0)\<close> is too large; a reset after the lease has run out
  fails the leader check.
\<close>

theorem ResetUserTimestamp_rejects_witness:
  "ResetUserTimestamp (\<lambda>t. t) (push_bit 18 1000000) TxnSucceeded S1_oracle = (Error ErrTooSmall, S1_oracle) \<and>
   ResetUserTimestamp (\<lambda>t. t) (push_bit 18 87400000) TxnSucceeded S1_oracle = (Error ErrTooLarge, S1_oracle) \<and>
   ResetUserTimestamp (\<lambda>t. t) (push_bit 18 1000010) TxnSucceeded
       (S1_oracle\<lparr>leadership := Some (Leadership False)\<rparr>) =
     (Error ErrLeaseReset, S1_oracle\<lparr>leadership := Some (Leadership False)\<rparr>)"
proof -
  have n1: "1000001000000 = fst (ParseTS (push_bit 18 1000000)) + Millisecond"
    and n2: "87400001000000 = fst (ParseTS (push_bit 18 87400000)) + Millisecond"
    and n3: "1000011000000 = fst (ParseTS (push_bit 18 1000010)) + Millisecond"
    by (simp_all add: ParseTS_def Millisecond_def)
  have pre: "Check (getLeadership S1_oracle)" "ts S1_oracle = Some 0"
    "physical (heap S1_oracle 0) = 1000000000000" "maxResetTSGap S1_oracle = 86400000000000"
    by (simp_all add: S1_oracle_eq getLeadership_def)
  have c1: "ResetUserTimestamp (\<lambda>t. t) (push_bit 18 1000000) TxnSucceeded S1_oracle =
      (Error ErrTooSmall, S1_oracle)"
    using ResetUserTimestamp_rejects [OF n1, of S1_oracle "\<lambda>t. t" TxnSucceeded 0] pre
    by (simp add: updateTimestampGuard_def Millisecond_def)
  have c2: "ResetUserTimestamp (\<lambda>t. t) (push_bit 18 87400000) TxnSucceeded S1_oracle =
      (Error ErrTooLarge, S1_oracle)"
    using ResetUserTimestamp_rejects [OF n2, of S1_oracle "\<lambda>t. t" TxnSucceeded 0] pre
    by (simp add: updateTimestampGuard_def Millisecond_def)
  have c3: "ResetUserTimestamp (\<lambda>t. t) (push_bit 18 1000010) TxnSucceeded
       (S1_oracle\<lparr>leadership := Some (Leadership False)\<rparr>) =
     (Error ErrLeaseReset, S1_oracle\<lparr>leadership := Some (Leadership False)\<rparr>)"
    using ResetUserTimestamp_rejects [OF n3,
        of "S1_oracle\<lparr>leadership := Some (Leadership False)\<rparr>" "\<lambda>t. t" TxnSucceeded 0]
    by (simp add: getLeadership_def)
  from c1 c2 c3 show ?thesis by blast
qed

subsection \<open>The invariants of a leader term\<close>

lemma int64_uint64_int64: "int64 (uint64 (int64 x)) = int64 x"
  by (simp add: int64_def uint64_def mod_simps)

lemma ParseTimestamp_saved: "in_int64 m \<Longrightarrow> ParseTimestamp (uint64 (UnixNano m)) = m"
  unfolding ParseTimestamp_def UnixNano_def int64_uint64_int64 by (rule int64_id)

lemma SyncTimestamp_save_ahead:
  assumes "save_ahead t" and "SyncTimestamp l get_ok now txn t = (r, t')" and "representable t'"
  shows "save_ahead t' \<and> physical_not_decreased t t' \<and> saved_not_decreased t t'"
proof -
  from assms(1) obtain a m where
    st: "ts t = Some a" "lastSavedTime t = Some m" "updateTimestampGuard \<le> saveInterval t"
      "physical (heap t a) + updateTimestampGuard \<le> m" "m \<le> physical (heap t a) + saveInterval t"
      "etcd_timestamp t = Some (uint64 (UnixNano m))" "in_int64 m"
    by (auto simp: save_ahead_def split: option.splits)
  have g: "0 < updateTimestampGuard" by (simp add: const_defs)
  have ld: "ParseTimestamp (uint64 (UnixNano m)) = m"
    using st(7) by (rule ParseTimestamp_saved)
  show ?thesis
    using assms(2,3) st g
    by (cases txn; cases l; cases get_ok)
       (auto simp: SyncTimestamp_def oracle_defs Let_def ld save_ahead_def representable_def
          physical_not_decreased_def saved_not_decreased_def split: if_splits)
qed

lemma UpdateTimestamp_save_ahead:
  assumes "save_ahead t" and "UpdateTimestamp now txn t = (r, t')" and "representable t'"
  shows "save_ahead t' \<and> physical_not_decreased t t' \<and> saved_not_decreased t t'"
proof -
  from assms(1) obtain a m where
    st: "ts t = Some a" "lastSavedTime t = Some m" "updateTimestampGuard \<le> saveInterval t"
      "physical (heap t a) + updateTimestampGuard \<le> m" "m \<le> physical (heap t a) + saveInterval t"
      "etcd_timestamp t = Some (uint64 (UnixNano m))" "in_int64 m"
    by (auto simp: save_ahead_def split: option.splits)
  have g: "updateTimestampGuard = 1000000" "Millisecond = 1000000" by (simp_all add: const_defs)
  show ?thesis
    using assms(2,3) st
    by (cases txn; cases "leadership t")
       (auto simp: UpdateTimestamp_def UpdateTimestamp_next_def oracle_defs Let_def g
          save_ahead_def representable_def physical_not_decreased_def saved_not_decreased_def
          split: if_splits)
qed

lemma ResetUserTimestamp_save_ahead:
  assumes "save_ahead t" and "ResetUserTimestamp (\<lambda>t. t) tso txn t = (r, t')"
    and "representable t'"
  shows "save_ahead t' \<and> physical_not_decreased t t' \<and> saved_not_decreased t t'"
proof -
  from assms(1) obtain a m where
    st: "ts t = Some a" "lastSavedTime t = Some m" "updateTimestampGuard \<le> saveInterval t"
      "physical (heap t a) + updateTimestampGuard \<le> m" "m \<le> physical (heap t a) + saveInterval t"
      "etcd_timestamp t = Some (uint64 (UnixNano m))" "in_int64 m"
    by (auto simp: save_ahead_def split: option.splits)
  have g: "updateTimestampGuard = 1000000" "Millisecond = 1000000" by (simp_all add: const_defs)
  show ?thesis
    using assms(2,3) st
    by (cases txn; cases "leadership t")
       (auto simp: ResetUserTimestamp_def oracle_defs Let_def g
          save_ahead_def representable_def physical_not_decreased_def saved_not_decreased_def
          split: if_splits)
qed

lemma SyncTimestamp_establishes_save_ahead:
  assumes "updateTimestampGuard \<le> saveInterval t"
    and "SyncTimestamp l get_ok now txn t = (Return (), t')" and "representable t'"
  shows "save_ahead t' \<and>
         (\<forall>lst m'. loadTimestamp get_ok t = Return lst \<and> lastSavedTime t' = Some m' \<longrightarrow> lst < m')"
proof -
  have g: "0 < updateTimestampGuard" by (simp add: const_defs)
  show ?thesis
    using assms g
    by (cases txn; cases l; cases get_ok; cases "etcd_timestamp t")
       (auto simp: SyncTimestamp_def oracle_defs Let_def save_ahead_def representable_def
          split: if_splits)
qed

text \<open>
  Run one at a time on an armed oracle, \<open>SyncTimestamp\<close>, \<open>UpdateTimestamp\<close> and
  \<open>ResetUserTimestamp\<close> leave an armed oracle, whatever they return, and lower neither the
  published physical nor the saved instant.
\<close>

lemma operations_alone_keep_save_ahead:
  assumes "save_ahead t"
  shows "(SyncTimestamp l get_ok now txn t = (r, t') \<and> representable t' \<longrightarrow>
            save_ahead t' \<and> physical_not_decreased t t' \<and> saved_not_decreased t t') \<and>
         (UpdateTimestamp now txn t = (r, t') \<and> representable t' \<longrightarrow>
            save_ahead t' \<and> physical_not_decreased t t' \<and> saved_not_decreased t t') \<and>
         (ResetUserTimestamp (\<lambda>t. t) tso txn t = (r, t') \<and> representable t' \<longrightarrow>
            save_ahead t' \<and> physical_not_decreased t t' \<and> saved_not_decreased t t')"
  using assms SyncTimestamp_save_ahead UpdateTimestamp_save_ahead ResetUserTimestamp_save_ahead
  by blast

lemma UpdateTimestamp_interleaved_alone:
  "UpdateTimestamp_interleaved (\<lambda>t. t) now txn t = UpdateTimestamp now txn t"
  by (cases "ts t") (simp_all add: UpdateTimestamp_interleaved_def UpdateTimestamp_def Let_def)

text \<open>
  C1. Within one leader term the operations do not keep I2 and I1 once a
  \<open>ResetUserTimestamp\<close> overlaps the background tick.

  I2: the snapshot is \<open>(1000000 ms, 0)\<close> and the save point 1003000 ms. A reset to
  \<open>(2000000, 0)\<close> saves 2003001 ms; the tick at 1000050 ms publishes meanwhile, the
  compare-and-swap fails and the call returns success with the snapshot at 1000050 ms. A
  second reset, to \<open>(1000100, 0)\<close>, is accepted and saves 1003101 ms: the saved instant, in
  the key and in the mirror, has gone down from 2003001 ms.

  I1: a tick at 1000050 ms loads \<open>prev = (1000000 ms, 0)\<close>; a reset to \<open>(2000000, 0)\<close> now
  runs to its end and publishes \<open>(2000001 ms, 0)\<close>; the tick then stores \<open>(1000050 ms, 0)\<close>
  over it: the published physical has gone down.
\<close>

theorem interleaved_reset_breaks_invariants:
  "ResetUserTimestamp concurrent_tick (push_bit 18 2000000) TxnSucceeded S1_oracle =
     (Return (), lost_cas_oracle) \<and>
   snapshot lost_cas_oracle = Some \<lparr>physical = 1000050 * Millisecond, logical = 0\<rparr> \<and>
   lastSavedTime lost_cas_oracle = Some (2003001 * Millisecond) \<and>
   etcd_timestamp lost_cas_oracle = Some (2003001 * Millisecond) \<and>
   fst (ResetUserTimestamp id (push_bit 18 1000100) TxnSucceeded lost_cas_oracle) = Return () \<and>
   lastSavedTime (snd (ResetUserTimestamp id (push_bit 18 1000100) TxnSucceeded
                         lost_cas_oracle)) = Some (1003101 * Millisecond) \<and>
   etcd_timestamp (snd (ResetUserTimestamp id (push_bit 18 1000100) TxnSucceeded
                          lost_cas_oracle)) = Some (1003101 * Millisecond) \<and>
   \<not> saved_not_decreased lost_cas_oracle
       (snd (ResetUserTimestamp id (push_bit 18 1000100) TxnSucceeded lost_cas_oracle)) \<and>
   snapshot (concurrent_reset S1_oracle) =
     Some \<lparr>physical = 2000001 * Millisecond, logical = 0\<rparr> \<and>
   fst (UpdateTimestamp_interleaved concurrent_reset (1000050 * Millisecond) TxnSucceeded
          S1_oracle) = Return () \<and>
   snapshot (snd (UpdateTimestamp_interleaved concurrent_reset (1000050 * Millisecond)
                    TxnSucceeded S1_oracle)) =
     Some \<lparr>physical = 1000050 * Millisecond, logical = 0\<rparr> \<and>
   \<not> physical_not_decreased (concurrent_reset S1_oracle)
       (snd (UpdateTimestamp_interleaved concurrent_reset (1000050 * Millisecond)
               TxnSucceeded S1_oracle))"
proof -
  have lost: "ResetUserTimestamp concurrent_tick (push_bit 18 2000000) TxnSucceeded S1_oracle =
      (Return (),
       \<lparr>leadership = Some (Leadership True), ts = Some (Suc 0),
        lastSavedTime = Some 2003001000000, saveInterval = 3000000000,
        maxResetTSGap = 86400000000000,
        heap = (\<lambda>_. \<lparr>physical = 0, logical = 0\<rparr>)
                 (0 := \<lparr>physical = 1000000000000, logical = 0\<rparr>,
                  Suc 0 := \<lparr>physical = 1000050000000, logical = 0\<rparr>,
                  Suc (Suc 0) := \<lparr>physical = 2000001000000, logical = 0\<rparr>),
        next_addr = Suc (Suc (Suc 0)), etcd_timestamp = Some 2003001000000\<rparr>)"
    by (simp add: S1_oracle_eq ResetUserTimestamp_def concurrent_tick_def UpdateTimestamp_def
          UpdateTimestamp_next_def ParseTS_def oracle_defs const_defs Let_def)
  have st: "lost_cas_oracle =
       \<lparr>leadership = Some (Leadership True), ts = Some (Suc 0),
        lastSavedTime = Some 2003001000000, saveInterval = 3000000000,
        maxResetTSGap = 86400000000000,
        heap = (\<lambda>_. \<lparr>physical = 0, logical = 0\<rparr>)
                 (0 := \<lparr>physical = 1000000000000, logical = 0\<rparr>,
                  Suc 0 := \<lparr>physical = 1000050000000, logical = 0\<rparr>,
                  Suc (Suc 0) := \<lparr>physical = 2000001000000, logical = 0\<rparr>),
        next_addr = Suc (Suc (Suc 0)), etcd_timestamp = Some 2003001000000\<rparr>"
    unfolding lost_cas_oracle_def lost by simp
  have first: "ResetUserTimestamp concurrent_tick (push_bit 18 2000000) TxnSucceeded S1_oracle =
     (Return (), lost_cas_oracle)"
    unfolding st by (rule lost)
  have state: "snapshot lost_cas_oracle = Some \<lparr>physical = 1000050 * Millisecond, logical = 0\<rparr> \<and>
      lastSavedTime lost_cas_oracle = Some (2003001 * Millisecond) \<and>
      etcd_timestamp lost_cas_oracle = Some (2003001 * Millisecond)"
    by (simp add: st snapshot_def Millisecond_def)
  have second: "fst (ResetUserTimestamp id (push_bit 18 1000100) TxnSucceeded lost_cas_oracle) =
        Return () \<and>
      lastSavedTime (snd (ResetUserTimestamp id (push_bit 18 1000100) TxnSucceeded
                         lost_cas_oracle)) = Some (1003101 * Millisecond) \<and>
      etcd_timestamp (snd (ResetUserTimestamp id (push_bit 18 1000100) TxnSucceeded
                          lost_cas_oracle)) = Some (1003101 * Millisecond)"
    by (simp add: st ResetUserTimestamp_def ParseTS_def oracle_defs const_defs Let_def)
  have lower: "\<not> saved_not_decreased lost_cas_oracle
       (snd (ResetUserTimestamp id (push_bit 18 1000100) TxnSucceeded lost_cas_oracle))"
    using second state by (simp add: saved_not_decreased_def Millisecond_def)
  have reset: "concurrent_reset S1_oracle =
       \<lparr>leadership = Some (Leadership True), ts = Some (Suc 0),
        lastSavedTime = Some 2003001000000, saveInterval = 3000000000,
        maxResetTSGap = 86400000000000,
        heap = (\<lambda>_. \<lparr>physical = 0, logical = 0\<rparr>)
                 (0 := \<lparr>physical = 1000000000000, logical = 0\<rparr>,
                  Suc 0 := \<lparr>physical = 2000001000000, logical = 0\<rparr>),
        next_addr = Suc (Suc 0), etcd_timestamp = Some 2003001000000\<rparr>"
    by (simp add: concurrent_reset_def S1_oracle_eq ResetUserTimestamp_def ParseTS_def
          oracle_defs const_defs Let_def)
  have pub: "snapshot (concurrent_reset S1_oracle) =
     Some \<lparr>physical = 2000001 * Millisecond, logical = 0\<rparr>"
    by (simp add: reset snapshot_def Millisecond_def)
  have tick: "fst (UpdateTimestamp_interleaved concurrent_reset (1000050 * Millisecond)
          TxnSucceeded S1_oracle) = Return () \<and>
      snapshot (snd (UpdateTimestamp_interleaved concurrent_reset (1000050 * Millisecond)
                    TxnSucceeded S1_oracle)) =
        Some \<lparr>physical = 1000050 * Millisecond, logical = 0\<rparr>"
    unfolding UpdateTimestamp_interleaved_def reset
    by (simp add: S1_oracle_eq UpdateTimestamp_next_def oracle_defs const_defs Let_def)
  have down: "\<not> physical_not_decreased (concurrent_reset S1_oracle)
       (snd (UpdateTimestamp_interleaved concurrent_reset (1000050 * Millisecond)
               TxnSucceeded S1_oracle))"
    using pub tick by (simp add: physical_not_decreased_def Millisecond_def)
  from first state second lower pub tick down show ?thesis by blast
qed

subsection \<open>GetRespTS\<close>

lemma maxRetryCount_Suc: "maxRetryCount = Suc 9"
  by (simp add: maxRetryCount_def)

lemma GetRespTS_first_iter:
  "n \<noteq> 0 \<Longrightarrow> GetRespTS_iter n t = (Done r, t1) \<Longrightarrow> GetRespTS env n t = (r, t1)"
  unfolding GetRespTS_def maxRetryCount_Suc GetRespTS_loop.simps by simp

lemma GetRespTS_iter_Return:
  assumes "GetRespTS_iter n u = (Done (Return r), t')"
  shows "\<exists>a. ts u = Some a \<and> physical (heap u a) \<noteq> ZeroTime \<and> Check (getLeadership u) \<and>
             AddInt64 a (uint n) u = (Logical r, t') \<and>
             Logical r = int64 (logical (heap u a) + uint n) \<and>
             Logical r = logical (heap t' a) \<and> ts t' = Some a \<and>
             physical (heap t' a) = physical (heap u a) \<and>
             Logical r < maxLogical \<and>
             Physical r = go_div (UnixNano (physical (heap u a))) Millisecond"
  using assms
  by (auto simp: GetRespTS_iter_def AddInt64_def getLeadership_def Let_def
        split: option.splits if_splits)

lemma GetRespTS_loop_Return:
  "GetRespTS_loop k i env n t = (Return r, t') \<Longrightarrow>
     \<exists>u. GetRespTS_iter n u = (Done (Return r), t')"
proof (induction k arbitrary: i t)
  case 0
  then show ?case by simp
next
  case (Suc k)
  show ?case
  proof (cases "GetRespTS_iter n t")
    case (Pair it t1)
    show ?thesis
    proof (cases it)
      case Continue
      with Pair Suc.prems have "GetRespTS_loop k (Suc i) env n (env i t1) = (Return r, t')"
        by simp
      then show ?thesis by (rule Suc.IH)
    next
      case (Done x)
      with Pair Suc.prems have "GetRespTS_iter n t = (Done (Return r), t')" by simp
      then show ?thesis by blast
    qed
  qed
qed

lemma saveTimestamp_frame:
  "saveTimestamp txn tm t = (r, t1) \<Longrightarrow>
     heap t1 = heap t \<and> next_addr t1 = next_addr t \<and> ts t1 = ts t"
  by (auto simp: saveTimestamp_def getLeadership_def split: option.splits txn_result.splits)

lemma publish_alloc_step:
  assumes "heap t1 = heap t" "next_addr t1 = next_addr t" "ts t1 = ts t"
    and "new_atomicObject \<lparr>physical = p, logical = 0\<rparr> t1 = (a, t2)"
  shows "alloc_step t (StorePointer a t2)"
  using assms by (auto simp: alloc_step_def new_atomicObject_def StorePointer_def)

lemma SyncTimestamp_alloc_step: "alloc_step t (snd (SyncTimestamp l get_ok now txn t))"
  by (cases txn; cases l; cases get_ok; cases "etcd_timestamp t")
     (auto simp: SyncTimestamp_def oracle_defs alloc_step_def Let_def)

lemma UpdateTimestamp_alloc_step: "alloc_step t (snd (UpdateTimestamp now txn t))"
  by (cases txn; cases "leadership t")
     (auto simp: UpdateTimestamp_def oracle_defs alloc_step_def Let_def split: option.splits)

lemma ResetUserTimestamp_alloc_step:
  "alloc_step t (snd (ResetUserTimestamp (\<lambda>t. t) tso txn t))"
  by (cases txn; cases "leadership t")
     (auto simp: ResetUserTimestamp_def oracle_defs alloc_step_def Let_def split: option.splits)



lemma uint32_bounds: "n \<noteq> 0 \<Longrightarrow> 0 < uint (n :: 32 word)"
  using uint_ge_0 [of n] by (auto simp: order_less_le uint_0_iff)










subsection \<open>The logical bound\<close>

lemma S3_oracle_eq:
  "GetRespTS undisturbed 262140 S1_oracle =
     (Return \<lparr>Physical = 1000000, Logical = 262140\<rparr>,
      S1_oracle\<lparr>heap := (heap S1_oracle)(0 := \<lparr>physical = 1000000000000, logical = 262140\<rparr>)\<rparr>)"
proof -
  have "GetRespTS_iter 262140 S1_oracle =
      (Done (Return \<lparr>Physical = 1000000, Logical = 262140\<rparr>),
       S1_oracle\<lparr>heap := (heap S1_oracle)(0 := \<lparr>physical = 1000000000000, logical = 262140\<rparr>)\<rparr>)"
    by (simp add: S1_oracle_eq GetRespTS_iter_def AddInt64_def getLeadership_def const_defs
          Let_def)
  then show ?thesis by (rule GetRespTS_first_iter [rotated]) simp
qed

lemma GetRespTS_iter_overflow:
  assumes "ts t = Some a" and "physical (heap t a) \<noteq> ZeroTime"
    and "maxLogical \<le> logical (heap t a) + uint n" and "logical (heap t a) + uint n < 2 ^ 63"
  shows "GetRespTS_iter n t =
           (Continue, t\<lparr>heap := (heap t)(a := (heap t a)\<lparr>logical := logical (heap t a) + uint n\<rparr>)\<rparr>)"
proof -
  have "int64 (logical (heap t a) + uint n) = logical (heap t a) + uint n"
    using assms(3,4) by (intro int64_id) (simp add: in_int64_def maxLogical_def)
  with assms show ?thesis
    by (simp add: GetRespTS_iter_def AddInt64_def Let_def)
qed

lemma GetRespTS_loop_overflow:
  assumes "ts t = Some a" and "physical (heap t a) \<noteq> ZeroTime" and "0 < uint n"
    and "maxLogical \<le> logical (heap t a) + uint n"
    and "logical (heap t a) + int k * uint n < 2 ^ 63"
  shows "\<exists>c. GetRespTS_loop k i undisturbed n t =
           (Error ErrCannotGet, t\<lparr>heap := (heap t)(a := (heap t a)\<lparr>logical := c\<rparr>)\<rparr>) \<and>
             logical (heap t a) \<le> c"
  using assms
proof (induction k arbitrary: t i)
  case 0
  have "t\<lparr>heap := (heap t)(a := (heap t a)\<lparr>logical := logical (heap t a)\<rparr>)\<rparr> = t" by simp
  then show ?case by (intro exI [of _ "logical (heap t a)"]) simp
next
  case (Suc k)
  let ?t1 = "t\<lparr>heap := (heap t)(a := (heap t a)\<lparr>logical := logical (heap t a) + uint n\<rparr>)\<rparr>"
  have small: "logical (heap t a) + uint n < 2 ^ 63"
  proof -
    have e: "int (Suc k) * uint n = uint n + int k * uint n" by (simp add: algebra_simps)
    have nn: "0 \<le> int k * uint n" using Suc.prems(3) by simp
    show ?thesis using Suc.prems(5) nn unfolding e by linarith
  qed
  have it: "GetRespTS_iter n t = (Continue, ?t1)"
    by (rule GetRespTS_iter_overflow [OF Suc.prems(1,2,4) small])
  have "\<exists>c. GetRespTS_loop k (Suc i) undisturbed n ?t1 =
           (Error ErrCannotGet, ?t1\<lparr>heap := (heap ?t1)(a := (heap ?t1 a)\<lparr>logical := c\<rparr>)\<rparr>) \<and>
             logical (heap ?t1 a) \<le> c"
  proof (rule Suc.IH)
    show "ts ?t1 = Some a" using Suc.prems(1) by simp
    show "physical (heap ?t1 a) \<noteq> ZeroTime" using Suc.prems(2) by simp
    show "0 < uint n" by (rule Suc.prems(3))
    show "maxLogical \<le> logical (heap ?t1 a) + uint n" using Suc.prems(3,4) by simp
    show "logical (heap ?t1 a) + int k * uint n < 2 ^ 63"
      using Suc.prems(5) by (simp add: algebra_simps)
  qed
  then obtain c where c: "GetRespTS_loop k (Suc i) undisturbed n ?t1 =
           (Error ErrCannotGet, ?t1\<lparr>heap := (heap ?t1)(a := (heap ?t1 a)\<lparr>logical := c\<rparr>)\<rparr>)"
    "logical (heap ?t1 a) \<le> c" by blast
  have "GetRespTS_loop (Suc k) i undisturbed n t =
      (Error ErrCannotGet, t\<lparr>heap := (heap t)(a := (heap t a)\<lparr>logical := c\<rparr>)\<rparr>)"
    using it c(1) by (simp add: undisturbed_def)
  moreover have "logical (heap t a) \<le> c" using c(2) Suc.prems(3) by simp
  ultimately show ?case by blast
qed

lemma alloc_step_publish_zero:
  "alloc_step t t1 \<Longrightarrow> ts t1 \<noteq> ts t \<Longrightarrow> map_option logical (snapshot t1) = Some 0"
  by (auto simp: alloc_step_def snapshot_def)

lemma S3_oracle_state:
  "S3_oracle =
     \<lparr>leadership = Some (Leadership True), ts = Some 0,
      lastSavedTime = Some 1003000000000, saveInterval = 3000000000,
      maxResetTSGap = 86400000000000,
      heap = (\<lambda>_. \<lparr>physical = 0, logical = 0\<rparr>)
               (0 := \<lparr>physical = 1000000000000, logical = 262140\<rparr>),
      next_addr = Suc 0, etcd_timestamp = Some 1003000000000\<rparr>"
  unfolding S3_oracle_def S3_oracle_eq by (simp add: S1_oracle_eq)

lemma maxRetryCount_unfold:
  "maxRetryCount = Suc (Suc (Suc (Suc (Suc (Suc (Suc (Suc (Suc (Suc 0)))))))))"
  by (simp add: maxRetryCount_def)

text \<open>
  C8 does not hold as stated. From the snapshot \<open>(1000000 ms, 0)\<close>, \<open>GetRespTS(262140)\<close>
  returns logical 262140. A following \<open>GetRespTS(10)\<close> adds 10 to the counter in each of its
  ten iterations before it checks the bound: the counter of the published snapshot ends at
  262240, above \<open>maxLogical\<close>.
\<close>

theorem logical_bound_counterexample:
  "fst (GetRespTS undisturbed 262140 S1_oracle) =
     Return \<lparr>Physical = 1000000, Logical = 262140\<rparr> \<and>
   map_option logical (snapshot (snd (GetRespTS undisturbed 10 S3_oracle))) = Some 262240 \<and>
   \<not> (262240 :: int) < maxLogical"
proof -
  have "snd (GetRespTS undisturbed 10 S3_oracle) =
      S3_oracle\<lparr>heap := (heap S3_oracle)(0 := \<lparr>physical = 1000000000000, logical = 262240\<rparr>)\<rparr>"
    unfolding GetRespTS_def maxRetryCount_unfold GetRespTS_loop.simps
    by (simp add: S3_oracle_state GetRespTS_iter_def AddInt64_def getLeadership_def const_defs
          undisturbed_def Let_def)
  then show ?thesis
    by (simp add: S3_oracle_eq snapshot_def S3_oracle_state maxLogical_def)
qed

text \<open>
  C8, amended. Every snapshot is published with logical 0, and only \<open>GetRespTS\<close> changes the
  counter afterwards; it adds before it checks, so the counter itself can reach and pass
  \<open>maxLogical\<close>. Every logical part that \<open>GetRespTS\<close> returns is below \<open>maxLogical\<close>. An
  iteration whose addition moves the counter to or past \<open>maxLogical\<close> returns nothing and
  goes on to a retry, and a call that nobody disturbs, so that no later snapshot appears,
  fails with ``can not get timestamp''.
\<close>

theorem logical_bound_amended:
  "(ts (snd (SyncTimestamp l get_ok now txn t)) \<noteq> ts t \<longrightarrow>
      map_option logical (snapshot (snd (SyncTimestamp l get_ok now txn t))) = Some 0) \<and>
   (ts (snd (UpdateTimestamp now txn t)) \<noteq> ts t \<longrightarrow>
      map_option logical (snapshot (snd (UpdateTimestamp now txn t))) = Some 0) \<and>
   (ts (snd (ResetUserTimestamp (\<lambda>t. t) tso txn t)) \<noteq> ts t \<longrightarrow>
      map_option logical (snapshot (snd (ResetUserTimestamp (\<lambda>t. t) tso txn t))) = Some 0) \<and>
   map_option logical (snapshot (ResetTimestamp t)) = Some 0 \<and>
   (GetRespTS env n t = (Return r, t') \<longrightarrow> Logical r < maxLogical) \<and>
   (ts t = Some a \<and> physical (heap t a) \<noteq> ZeroTime \<and> n \<noteq> 0 \<and>
    maxLogical \<le> logical (heap t a) + uint n \<and> logical (heap t a) + 10 * uint n < 2 ^ 63 \<longrightarrow>
      fst (GetRespTS_iter n t) = Continue \<and>
      fst (GetRespTS undisturbed n t) = Error ErrCannotGet)"
proof -
  have reset: "map_option logical (snapshot (ResetTimestamp t)) = Some 0"
    by (simp add: ResetTimestamp_def oracle_defs Let_def)
  have ret: "Logical r < maxLogical" if "GetRespTS env n t = (Return r, t')"
  proof -
    from that have "GetRespTS_loop maxRetryCount 0 env n t = (Return r, t')"
      by (auto simp: GetRespTS_def split: if_splits)
    then obtain u where "GetRespTS_iter n u = (Done (Return r), t')"
      using GetRespTS_loop_Return by blast
    from GetRespTS_iter_Return [OF this] show ?thesis by blast
  qed
  have over: "fst (GetRespTS_iter n t) = Continue \<and>
      fst (GetRespTS undisturbed n t) = Error ErrCannotGet"
    if h: "ts t = Some a" "physical (heap t a) \<noteq> ZeroTime" "n \<noteq> 0"
      "maxLogical \<le> logical (heap t a) + uint n" "logical (heap t a) + 10 * uint n < 2 ^ 63"
  proof -
    have pos: "0 < uint n" using h(3) by (rule uint32_bounds)
    have one: "logical (heap t a) + uint n < 2 ^ 63" using h(5) pos by simp
    have ten: "logical (heap t a) + int maxRetryCount * uint n < 2 ^ 63"
      using h(5) by (simp add: maxRetryCount_def)
    from GetRespTS_iter_overflow [OF h(1,2,4) one]
    have "fst (GetRespTS_iter n t) = Continue" by simp
    moreover from GetRespTS_loop_overflow [OF h(1,2) pos h(4) ten, of 0]
    have "fst (GetRespTS undisturbed n t) = Error ErrCannotGet"
      using h(3) by (auto simp: GetRespTS_def)
    ultimately show ?thesis by simp
  qed
  from alloc_step_publish_zero [OF SyncTimestamp_alloc_step]
    alloc_step_publish_zero [OF UpdateTimestamp_alloc_step]
    alloc_step_publish_zero [OF ResetUserTimestamp_alloc_step]
    reset ret over
  show ?thesis by blast
qed

text \<open>
  With the counter at 262140, \<open>GetRespTS(10)\<close> goes on to a retry in its first iteration and,
  undisturbed, fails; a tick at 1000050 ms publishes a snapshot with logical 0.
\<close>

theorem logical_bound_amended_witness:
  "fst (GetRespTS_iter 10 S3_oracle) = Continue \<and>
   fst (GetRespTS undisturbed 10 S3_oracle) = Error ErrCannotGet \<and>
   map_option logical
     (snapshot (snd (UpdateTimestamp (1000050 * Millisecond) TxnSucceeded S3_oracle))) = Some 0"
proof -
  have pre: "ts S3_oracle = Some 0 \<and> physical (heap S3_oracle 0) \<noteq> ZeroTime \<and>
      (10 :: 32 word) \<noteq> 0 \<and> maxLogical \<le> logical (heap S3_oracle 0) + uint (10 :: 32 word) \<and>
      logical (heap S3_oracle 0) + 10 * uint (10 :: 32 word) < 2 ^ 63"
    by (simp add: S3_oracle_state const_defs)
  have upd: "ts (snd (UpdateTimestamp (1000050 * Millisecond) TxnSucceeded S3_oracle)) \<noteq>
      ts S3_oracle"
    by (simp add: S3_oracle_state UpdateTimestamp_def UpdateTimestamp_next_def oracle_defs
          const_defs Let_def)
  from logical_bound_amended [where t = S3_oracle and a = 0 and n = 10
      and now = "1000050 * Millisecond" and txn = TxnSucceeded] pre upd
  show ?thesis by blast
qed

subsection \<open>The compare-and-swap of ResetUserTimestamp\<close>

text \<open>
  C7 does not hold as stated. The snapshot is the object at address 0,
  \<open>(1000000 ms, 0)\<close>. A reset to the timestamp \<open>(1000010, 0)\<close> is accepted and saved; meanwhile
  the tick publishes a new object, so the compare-and-swap from address 0 fails; the call
  still returns success, and the snapshot is the tick's, not \<open>(1000011 ms, 0)\<close>.
\<close>

theorem ResetUserTimestamp_conflict_counterexample:
  "ts S1_oracle = Some 0 \<and>
   fst (CompareAndSwapPointer (Some 0) 2
          (snd (new_atomicObject \<lparr>physical = 1000011 * Millisecond, logical = 0\<rparr>
                  (concurrent_tick
                     (snd (saveTimestamp TxnSucceeded (1003011 * Millisecond) S1_oracle)))))) =
     False \<and>
   fst (ResetUserTimestamp concurrent_tick (push_bit 18 1000010) TxnSucceeded S1_oracle) =
     Return () \<and>
   snapshot (snd (ResetUserTimestamp concurrent_tick (push_bit 18 1000010) TxnSucceeded
                    S1_oracle)) =
     Some \<lparr>physical = 1000050 * Millisecond, logical = 0\<rparr>"
  by (simp add: S1_oracle_eq ResetUserTimestamp_def concurrent_tick_def UpdateTimestamp_def
        UpdateTimestamp_next_def ParseTS_def oracle_defs const_defs Let_def)

text \<open>
  C7, amended. When \<open>ResetUserTimestamp\<close> accepts and the durable save succeeds, it
  compare-and-swaps the snapshot pointer from \<open>prev\<close> to a new object \<open>(next, 0)\<close> and returns
  success whether or not the swap took place: when the pointer still is \<open>prev\<close> the snapshot
  becomes \<open>(next, 0)\<close>; when the snapshot changed meanwhile, the pointer stays as it was set
  and no conflict is reported.
\<close>

theorem ResetUserTimestamp_cas_amended:
  assumes "Check (getLeadership t)" and "ts t = Some prev"
    and "next = fst (ParseTS tso) + Millisecond"
    and "3 * updateTimestampGuard < next - physical (heap t prev)"
    and "next - physical (heap t prev) < maxResetTSGap t"
    and "t1 = t\<lparr>etcd_timestamp := Some (uint64 (UnixNano (next + saveInterval t))),
                  lastSavedTime := Some (next + saveInterval t)\<rparr>"
    and "ResetUserTimestamp env tso TxnSucceeded t = (r, t')"
  shows "r = Return () \<and>
         (ts (env t1) = Some prev \<longrightarrow> snapshot t' = Some \<lparr>physical = next, logical = 0\<rparr>) \<and>
         (ts (env t1) \<noteq> Some prev \<longrightarrow> ts t' = ts (env t1)) \<and>
         lastSavedTime t' = lastSavedTime (env t1) \<and>
         etcd_timestamp t' = etcd_timestamp (env t1)"
proof -
  from assms(1) obtain h where h: "leadership t = Some h"
    by (cases "leadership t") (simp_all add: getLeadership_def)
  show ?thesis
    using assms h
    by (auto simp: ResetUserTimestamp_def oracle_defs Let_def split: if_splits)
qed

text \<open>
  The same reset with nobody else at work publishes \<open>(1000011 ms, 0)\<close> and saves 1003011 ms.
\<close>

theorem ResetUserTimestamp_cas_amended_witness:
  "fst (ResetUserTimestamp (\<lambda>t. t) (push_bit 18 1000010) TxnSucceeded S1_oracle) = Return () \<and>
   snapshot (snd (ResetUserTimestamp (\<lambda>t. t) (push_bit 18 1000010) TxnSucceeded S1_oracle)) =
     Some \<lparr>physical = 1000011 * Millisecond, logical = 0\<rparr> \<and>
   lastSavedTime (snd (ResetUserTimestamp (\<lambda>t. t) (push_bit 18 1000010) TxnSucceeded
                         S1_oracle)) =
     Some (1003011 * Millisecond)"
proof -
  let ?res = "ResetUserTimestamp (\<lambda>t. t) (push_bit 18 1000010) TxnSucceeded S1_oracle"
  have a1: "Check (getLeadership S1_oracle)" and a2: "ts S1_oracle = Some 0"
    by (simp_all add: S1_oracle_eq getLeadership_def)
  have a3: "1000011 * Millisecond = fst (ParseTS (push_bit 18 1000010)) + Millisecond"
    by (simp add: ParseTS_def Millisecond_def)
  have a4: "3 * updateTimestampGuard < 1000011 * Millisecond - physical (heap S1_oracle 0)"
    and a5: "1000011 * Millisecond - physical (heap S1_oracle 0) < maxResetTSGap S1_oracle"
    by (simp_all add: S1_oracle_eq const_defs)
  have a7: "?res = (fst ?res, snd ?res)" by simp
  from ResetUserTimestamp_cas_amended [OF a1 a2 a3 a4 a5 refl a7] a2
  show ?thesis by (simp add: S1_oracle_eq Millisecond_def)
qed

subsection \<open>After ResetTimestamp\<close>









subsection \<open>The reads of UpdateTimestamp\<close>

lemma SyncTimestamp_synced_once:
  "synced_once t \<Longrightarrow> synced_once (snd (SyncTimestamp l get_ok now txn t))"
  unfolding synced_once_def
  by (cases txn; cases l; cases get_ok; cases "etcd_timestamp t")
     (auto simp: SyncTimestamp_def oracle_defs Let_def)

lemma UpdateTimestamp_synced_once:
  "synced_once t \<Longrightarrow> synced_once (snd (UpdateTimestamp now txn t))"
  unfolding synced_once_def
  by (cases txn; cases "leadership t")
     (auto simp: UpdateTimestamp_def oracle_defs Let_def split: option.splits)

lemma ResetUserTimestamp_synced_once:
  "synced_once t \<Longrightarrow> synced_once (snd (ResetUserTimestamp (\<lambda>t. t) tso txn t))"
  unfolding synced_once_def
  by (cases txn; cases "leadership t")
     (auto simp: ResetUserTimestamp_def oracle_defs Let_def split: option.splits)

lemma ResetTimestamp_synced_once: "synced_once t \<Longrightarrow> synced_once (ResetTimestamp t)"
  by (simp add: synced_once_def ResetTimestamp_def oracle_defs Let_def)

lemma GetRespTS_iter_synced_once:
  "synced_once t \<Longrightarrow> synced_once (snd (GetRespTS_iter n t))"
  by (auto simp: synced_once_def GetRespTS_iter_def AddInt64_def Let_def split: option.splits)

text \<open>
  C10. Before any \<open>SyncTimestamp\<close> the snapshot pointer is nil and \<open>UpdateTimestamp\<close> fails
  on the nil dereference; with a snapshot but no save ever stored, the type assertion on
  \<open>lastSavedTime\<close> fails as soon as a \<open>next\<close> is chosen. A \<open>SyncTimestamp\<close> that succeeds
  leaves both the pointer and the mirror set, every operation keeps them set, and then
  neither read of \<open>UpdateTimestamp\<close> fails; with a leadership handle in place the call
  returns normally or with the error of its save, the oracle unchanged in the latter case.
\<close>

theorem UpdateTimestamp_reads:
  "(ts t = None \<longrightarrow> UpdateTimestamp now txn t = (Panic NilSnapshot, t)) \<and>
   (ts t = Some a \<and> lastSavedTime t = None \<and> UpdateTimestamp_next now (heap t a) \<noteq> None \<longrightarrow>
      UpdateTimestamp now txn t = (Panic BadTypeAssertion, t)) \<and>
   (SyncTimestamp l get_ok now0 txn0 t0 = (Return (), t) \<longrightarrow> synced_once t) \<and>
   (synced_once t \<longrightarrow>
      fst (UpdateTimestamp now txn t) \<noteq> Panic NilSnapshot \<and>
      fst (UpdateTimestamp now txn t) \<noteq> Panic BadTypeAssertion \<and>
      (leadership t \<noteq> None \<longrightarrow>
         fst (UpdateTimestamp now txn t) = Return () \<or>
         UpdateTimestamp now txn t = (Error ErrStore, t) \<and> txn = TxnError \<or>
         UpdateTimestamp now txn t = (Error ErrSaveFailed, t) \<and> txn = TxnNotSucceeded) \<and>
      synced_once (snd (SyncTimestamp l get_ok now txn t)) \<and>
      synced_once (snd (UpdateTimestamp now txn t)) \<and>
      synced_once (snd (ResetUserTimestamp (\<lambda>t. t) tso txn t)) \<and>
      synced_once (ResetTimestamp t) \<and>
      synced_once (snd (GetRespTS_iter n t)))"
proof -
  have nil: "UpdateTimestamp now txn t = (Panic NilSnapshot, t)" if "ts t = None"
    using that by (simp add: UpdateTimestamp_def)
  have assertion: "UpdateTimestamp now txn t = (Panic BadTypeAssertion, t)"
    if "ts t = Some a" "lastSavedTime t = None" "UpdateTimestamp_next now (heap t a) \<noteq> None"
    using that by (auto simp: UpdateTimestamp_def)
  have sync: "synced_once t" if "SyncTimestamp l get_ok now0 txn0 t0 = (Return (), t)"
    using that unfolding synced_once_def
    by (cases txn0; cases l; cases get_ok; cases "etcd_timestamp t0")
       (auto simp: SyncTimestamp_def oracle_defs Let_def)
  have reads: "fst (UpdateTimestamp now txn t) \<noteq> Panic NilSnapshot \<and>
      fst (UpdateTimestamp now txn t) \<noteq> Panic BadTypeAssertion"
    if "synced_once t"
    using that unfolding synced_once_def
    by (cases txn; cases "leadership t")
       (auto simp: UpdateTimestamp_def oracle_defs Let_def split: option.splits)
  have total: "fst (UpdateTimestamp now txn t) = Return () \<or>
         UpdateTimestamp now txn t = (Error ErrStore, t) \<and> txn = TxnError \<or>
         UpdateTimestamp now txn t = (Error ErrSaveFailed, t) \<and> txn = TxnNotSucceeded"
    if "synced_once t" "leadership t \<noteq> None"
    using that unfolding synced_once_def
    by (cases txn)
       (auto simp: UpdateTimestamp_def oracle_defs Let_def split: option.splits)
  from nil assertion sync reads total
    SyncTimestamp_synced_once [of t l get_ok now txn] UpdateTimestamp_synced_once [of t now txn]
    ResetUserTimestamp_synced_once [of t tso txn] ResetTimestamp_synced_once [of t]
    GetRespTS_iter_synced_once [of t n]
  show ?thesis by blast
qed

text \<open>
  On a new oracle a tick fails on the nil pointer. When \<open>ResetTimestamp\<close> has published the
  sentinel on a new oracle, a tick fails on the type assertion. After the cold start both
  reads succeed, and a tick whose save loses the leadership returns that error.
\<close>

theorem UpdateTimestamp_reads_witness:
  "UpdateTimestamp (1000050 * Millisecond) TxnSucceeded fresh_oracle =
     (Panic NilSnapshot, fresh_oracle) \<and>
   UpdateTimestamp (1000050 * Millisecond) TxnSucceeded (ResetTimestamp fresh_oracle) =
     (Panic BadTypeAssertion, ResetTimestamp fresh_oracle) \<and>
   synced_once S1_oracle \<and>
   fst (UpdateTimestamp (1000050 * Millisecond) TxnSucceeded S1_oracle) = Return () \<and>
   UpdateTimestamp (1004000 * Millisecond) TxnNotSucceeded S1_oracle =
     (Error ErrSaveFailed, S1_oracle)"
proof -
  have c1: "ts fresh_oracle = None" by (simp add: fresh_oracle_eq)
  have c2: "ts (ResetTimestamp fresh_oracle) = Some 0 \<and>
      lastSavedTime (ResetTimestamp fresh_oracle) = None \<and>
      UpdateTimestamp_next (1000050 * Millisecond) (heap (ResetTimestamp fresh_oracle) 0) \<noteq> None"
    by (simp add: fresh_oracle_eq ResetTimestamp_def UpdateTimestamp_next_def oracle_defs
          const_defs Let_def)
  have c3: "SyncTimestamp (Some (Leadership True)) True (1000000 * Millisecond) TxnSucceeded
             fresh_oracle = (Return (), S1_oracle)"
    by (simp add: S1_oracle_def fresh_oracle_eq SyncTimestamp_def oracle_defs const_defs Let_def)
  have c4: "leadership S1_oracle \<noteq> None" by (simp add: S1_oracle_eq)
  have c5: "fst (UpdateTimestamp (1000050 * Millisecond) TxnSucceeded S1_oracle) = Return ()"
    by (simp add: S1_oracle_eq UpdateTimestamp_def UpdateTimestamp_next_def oracle_defs
          const_defs Let_def)
  have c6: "fst (UpdateTimestamp (1004000 * Millisecond) TxnNotSucceeded S1_oracle) \<noteq> Return ()"
    by (simp add: S1_oracle_eq UpdateTimestamp_def UpdateTimestamp_next_def oracle_defs
          const_defs Let_def)
  from UpdateTimestamp_reads [where t = fresh_oracle and now = "1000050 * Millisecond"
      and txn = TxnSucceeded] c1
  have w1: "UpdateTimestamp (1000050 * Millisecond) TxnSucceeded fresh_oracle =
     (Panic NilSnapshot, fresh_oracle)" by blast
  from UpdateTimestamp_reads [where t = "ResetTimestamp fresh_oracle" and a = 0
      and now = "1000050 * Millisecond" and txn = TxnSucceeded] c2
  have w2: "UpdateTimestamp (1000050 * Millisecond) TxnSucceeded (ResetTimestamp fresh_oracle) =
     (Panic BadTypeAssertion, ResetTimestamp fresh_oracle)" by blast
  from UpdateTimestamp_reads [where t = S1_oracle and t0 = fresh_oracle
      and l = "Some (Leadership True)" and get_ok = True and ?now0.0 = "1000000 * Millisecond"
      and ?txn0.0 = TxnSucceeded] c3
  have w3: "synced_once S1_oracle" by blast
  from UpdateTimestamp_reads [where t = S1_oracle and now = "1004000 * Millisecond"
      and txn = TxnNotSucceeded] w3 c4 c6
  have w5: "UpdateTimestamp (1004000 * Millisecond) TxnNotSucceeded S1_oracle =
     (Error ErrSaveFailed, S1_oracle)" by blast
  from w1 w2 w3 c5 w5 show ?thesis by blast
qed

end
